theory Spec2Isabelle
  imports Main "HOL-Library.Word"
begin

section \<open>Data model of \<open>readability.go\<close>\<close>

text \<open>
  \<open>FromURL\<close> (lines 39--86 of \<open>readability.go\<close>) is a pipeline over five collaborators
  that are not part of the file: \<open>nurl.ParseRequestURI\<close>, \<open>http.NewRequest\<close>,
  \<open>http.Client.Do\<close>, \<open>gzip.NewReader\<close> and \<open>Parser.Parse\<close>. The embedding takes them as the
  fields of an environment record and keeps a log of every call that \<open>FromURL\<close> makes on
  them, in the order in which it makes them, so that "no request is built", "closed once"
  and "closed before" are statements about that log.
\<close>

type_synonym byte = "8 word"

text \<open>
  The errors \<open>FromURL\<close> returns, one constructor for each \<open>return Article{}, ...\<close> of the
  source, named after the error classes of the specification. The argument is the text of
  the wrapped error (\<open>%v\<close>).
\<close>

datatype error =
    InvalidURL string
  | RequestBuildError string
  | FetchError string
  | DecodeError string
  | UnsupportedContentType
  | ParseError string

text \<open>The message of each error, as \<open>fmt.Errorf\<close> builds it in the source.\<close>

fun Error :: "error \<Rightarrow> string" where
  "Error (InvalidURL err) = ''failed to parse URL: '' @ err"
| "Error (RequestBuildError err) = ''failed to create request: '' @ err"
| "Error (FetchError err) = ''failed to fetch the page: '' @ err"
| "Error (DecodeError err) = ''failed to create gzip reader: '' @ err"
| "Error UnsupportedContentType = ''URL is not a HTML document''"
| "Error (ParseError err) = err"

text \<open>
  \<open>url.URL\<close>: the fields that \<open>net/url.parse\<close> fills for a request URI and that the
  properties below speak about (\<open>RawPath\<close>, \<open>OmitHost\<close> and the fragment are left
  out). \<open>User\<close> is the user name and, when set, the password.
\<close>

record url =
  Scheme :: string
  Opaque :: string
  User :: "(string \<times> string option) option"
  Host :: string
  Path :: string
  ForceQuery :: bool
  RawQuery :: string

text \<open>\<open>http.Header\<close> is \<open>map[string][]string\<close>.\<close>

type_synonym header = "string \<rightharpoonup> string list"

text \<open>
  \<open>Header.Get\<close>: the first value stored under the key, \<open>""\<close> when there is none. The keys
  the source uses (\<open>Content-Encoding\<close>, \<open>Content-Type\<close>, \<open>Accept-Encoding\<close>) are
  already in canonical MIME form, so the canonicalisation of the key is the identity on
  them.
\<close>

definition Header_Get :: "header \<Rightarrow> string \<Rightarrow> string" where
  "Header_Get h key = (case h key of None \<Rightarrow> [] | Some [] \<Rightarrow> [] | Some (v # _) \<Rightarrow> v)"

definition Header_Set :: "header \<Rightarrow> string \<Rightarrow> string \<Rightarrow> header" where
  "Header_Set h key v = h(key \<mapsto> [v])"

record client =
  Timeout :: "64 word"

record request =
  Method :: string
  ReqURL :: string
  ReqHeader :: header

text \<open>
  \<open>http.Response\<close>: \<open>Body\<close> is the content of the body stream, \<open>Request\<close> the request
  that was sent to obtain the response (the last one, when redirects were followed).
\<close>

record response =
  StatusCode :: int
  Header :: header
  Body :: "byte list"
  Request :: request

text \<open>
  The \<open>io.Reader\<close> handed to the parser: the response body as it is, or the
  \<open>*gzip.Reader\<close> that \<open>gzip.NewReader\<close> returned.
\<close>

datatype 'z reader = BodyReader "byte list" | GzipReader 'z

text \<open>The calls \<open>FromURL\<close> makes on its collaborators and on the streams it owns.\<close>

datatype 'z event =
    NewRequestCall string string
  | DoCall client request
  | GzipNewReaderCall "byte list"
  | ParseCall "'z reader" url
  | GzipClose
  | BodyClose

text \<open>
  The collaborators. \<open>gzip_NewReader\<close> gets the content of the stream it wraps and
  returns an error or the reader; \<open>gzip_ReadAll\<close> is what reading that reader to its end
  yields: the bytes, and the error that ended the reading unless it was \<open>io.EOF\<close>.
  \<open>Parse\<close> is \<open>NewParser().Parse\<close>; it receives an \<open>io.Reader\<close>, which has no
  \<open>Close\<close>.
\<close>

record ('z, 'a) env =
  ParseRequestURI :: "string \<Rightarrow> string + url"
  NewRequest :: "string \<Rightarrow> string \<Rightarrow> string + request"
  Do :: "client \<Rightarrow> request \<Rightarrow> string + response"
  gzip_NewReader :: "byte list \<Rightarrow> string + 'z"
  gzip_ReadAll :: "'z \<Rightarrow> byte list \<times> string option"
  Parse :: "'z reader \<Rightarrow> url \<Rightarrow> string + 'a"

section \<open>\<open>strings.Contains\<close>\<close>

fun strings_HasPrefix :: "string \<Rightarrow> string \<Rightarrow> bool" where
  "strings_HasPrefix s [] = True"
| "strings_HasPrefix [] (p # ps) = False"
| "strings_HasPrefix (c # s) (p # ps) = (c = p \<and> strings_HasPrefix s ps)"

fun strings_Contains :: "string \<Rightarrow> string \<Rightarrow> bool" where
  "strings_Contains [] substr = (substr = [])"
| "strings_Contains (c # s) substr =
     (strings_HasPrefix (c # s) substr \<or> strings_Contains s substr)"

section \<open>\<open>FromURL\<close>\<close>

text \<open>
  Lines 41--59: the URL is checked, the request built and sent. The result is the error
  and the log of the \<open>return\<close> taken, or the parsed URL, the response and the log so far.
\<close>

definition FromURL_fetch ::
    "('z, 'a) env \<Rightarrow> string \<Rightarrow> 64 word \<Rightarrow>
       (error \<times> 'z event list) + (url \<times> response \<times> 'z event list)" where
  "FromURL_fetch env pageURL timeout =
     (case ParseRequestURI env pageURL of
        Inl err \<Rightarrow> Inl (InvalidURL err, [])
      | Inr parsedURL \<Rightarrow>
          (let cl = \<lparr>Timeout = timeout\<rparr> in
           case NewRequest env ''GET'' pageURL of
             Inl err \<Rightarrow> Inl (RequestBuildError err, [NewRequestCall ''GET'' pageURL])
           | Inr req0 \<Rightarrow>
               (let req = req0\<lparr>ReqHeader :=
                            Header_Set (ReqHeader req0) ''Accept-Encoding'' ''gzip''\<rparr> in
                case Do env cl req of
                  Inl err \<Rightarrow> Inl (FetchError err,
                                  [NewRequestCall ''GET'' pageURL, DoCall cl req])
                | Inr resp \<Rightarrow>
                    Inr (parsedURL, resp,
                         [NewRequestCall ''GET'' pageURL, DoCall cl req]))))"

text \<open>
  Lines 60--85: what \<open>FromURL\<close> does once \<open>client.Do\<close> has returned a response. \<open>evs\<close>
  is the log so far. \<open>deferred\<close> is the stack of deferred calls, the last one registered
  first; every \<open>return\<close> runs it from the top, which appends it to the log.
\<close>

definition FromURL_response ::
    "('z, 'a) env \<Rightarrow> url \<Rightarrow> response \<Rightarrow> 'z event list \<Rightarrow> (error + 'a) \<times> 'z event list" where
  "FromURL_response env parsedURL resp evs =
     (let deferred = [BodyClose] in
      case (if Header_Get (Header resp) ''Content-Encoding'' = ''gzip''
            then (case gzip_NewReader env (Body resp) of
                    Inl err \<Rightarrow> Inl err
                  | Inr z \<Rightarrow> Inr (GzipReader z, evs @ [GzipNewReaderCall (Body resp)],
                                 GzipClose # deferred))
            else Inr (BodyReader (Body resp), evs, deferred)) of
        Inl err \<Rightarrow>
          (Inl (DecodeError err), evs @ [GzipNewReaderCall (Body resp)] @ deferred)
      | Inr (reader, evs', deferred') \<Rightarrow>
          (let cp = Header_Get (Header resp) ''Content-Type'' in
           if \<not> strings_Contains cp ''text/html''
           then (Inl UnsupportedContentType, evs' @ deferred')
           else (case Parse env reader parsedURL of
                   Inl err \<Rightarrow> (Inl (ParseError err),
                               evs' @ [ParseCall reader parsedURL] @ deferred')
                 | Inr article \<Rightarrow> (Inr article,
                               evs' @ [ParseCall reader parsedURL] @ deferred'))))"

definition FromURL ::
    "('z, 'a) env \<Rightarrow> string \<Rightarrow> 64 word \<Rightarrow> (error + 'a) \<times> 'z event list" where
  "FromURL env pageURL timeout =
     (case FromURL_fetch env pageURL timeout of
        Inl (err, evs) \<Rightarrow> (Inl err, evs)
      | Inr (parsedURL, resp, evs) \<Rightarrow> FromURL_response env parsedURL resp evs)"

text \<open>What the parser reads from the reader it was given (\<open>io.ReadAll\<close>).\<close>

fun read_all :: "('z, 'a) env \<Rightarrow> 'z reader \<Rightarrow> byte list \<times> string option" where
  "read_all env (BodyReader b) = (b, None)"
| "read_all env (GzipReader z) = gzip_ReadAll env z"

text \<open>The readers handed to \<open>Parse\<close> in a log, and what each of them yields.\<close>

fun parse_readers :: "'z event list \<Rightarrow> 'z reader list" where
  "parse_readers [] = []"
| "parse_readers (ParseCall r u # evs) = r # parse_readers evs"
| "parse_readers (e # evs) = parse_readers evs"

definition delivered :: "('z, 'a) env \<Rightarrow> 'z event list \<Rightarrow> (byte list \<times> string option) list" where
  "delivered env evs = map (read_all env) (parse_readers evs)"

text \<open>
  A payload is a gzip compression of \<open>B\<close> when the decoder accepts its header and reads
  \<open>B\<close> from it up to a clean end of stream.
\<close>

definition gzip_of :: "('z, 'a) env \<Rightarrow> byte list \<Rightarrow> byte list \<Rightarrow> bool" where
  "gzip_of env payload B =
     (case gzip_NewReader env payload of
        Inl err \<Rightarrow> False
      | Inr z \<Rightarrow> gzip_ReadAll env z = (B, None))"

section \<open>\<open>net/url\<close>: parsing a request URI\<close>

text \<open>
  \<open>nurl.ParseRequestURI\<close> is \<open>parse(rawURL, true)\<close> of the Go standard library. The
  definitions below follow that function in the mode \<open>viaRequest = true\<close>, the only one
  \<open>FromURL\<close> reaches. \<open>parseAuthority\<close> and \<open>setPath\<close> (host, port and escape
  validation) are taken as parameters; the error is the text of the error that
  \<open>ParseRequestURI\<close> wraps.
\<close>

definition stringContainsCTLByte :: "string \<Rightarrow> bool" where
  "stringContainsCTLByte s =
     list_ex (\<lambda>c. (of_char c :: nat) < 32 \<or> (of_char c :: nat) = 127) s"

definition is_letter :: "char \<Rightarrow> bool" where
  "is_letter c =
     (let n = (of_char c :: nat) in (97 \<le> n \<and> n \<le> 122) \<or> (65 \<le> n \<and> n \<le> 90))"

definition is_scheme_mark :: "char \<Rightarrow> bool" where
  "is_scheme_mark c =
     (let n = (of_char c :: nat) in
      (48 \<le> n \<and> n \<le> 57) \<or> c = CHR ''+'' \<or> c = CHR ''-'' \<or> c = CHR ''.'')"

text \<open>
  \<open>getScheme\<close>: the loop over \<open>rawURL\<close>, with the characters already passed in \<open>seen\<close>
  (\<open>i = 0\<close> is \<open>seen = []\<close>) and the characters still to come as third argument.
\<close>

fun getScheme_from :: "string \<Rightarrow> string \<Rightarrow> string \<Rightarrow> string + (string \<times> string)" where
  "getScheme_from rawURL seen [] = Inr ([], rawURL)"
| "getScheme_from rawURL seen (c # cs) =
     (if is_letter c then getScheme_from rawURL (seen @ [c]) cs
      else if is_scheme_mark c then
        (if seen = [] then Inr ([], rawURL) else getScheme_from rawURL (seen @ [c]) cs)
      else if c = CHR '':'' then
        (if seen = [] then Inl ''missing protocol scheme'' else Inr (seen, cs))
      else Inr ([], rawURL))"

definition getScheme :: "string \<Rightarrow> string + (string \<times> string)" where
  "getScheme rawURL = getScheme_from rawURL [] rawURL"

text \<open>\<open>strings.ToLower\<close> on a scheme, which holds ASCII letters, digits and marks only.\<close>

definition strings_ToLower :: "string \<Rightarrow> string" where
  "strings_ToLower s =
     map (\<lambda>c. let n = (of_char c :: nat) in
               if 65 \<le> n \<and> n \<le> 90 then char_of (n + 32) else c) s"

type_synonym authority_parser = "string \<Rightarrow> string + ((string \<times> string option) option \<times> string)"

type_synonym path_setter = "string \<Rightarrow> string + string"

definition url_ParseRequestURI ::
    "authority_parser \<Rightarrow> path_setter \<Rightarrow> string \<Rightarrow> string + url" where
  "url_ParseRequestURI parseAuthority setPath rawURL =
     (if stringContainsCTLByte rawURL then Inl ''net/url: invalid control character in URL''
      else if rawURL = [] then Inl ''empty url''
      else if rawURL = ''*'' then
        Inr \<lparr>Scheme = [], Opaque = [], User = None, Host = [], Path = ''*'',
             ForceQuery = False, RawQuery = []\<rparr>
      else
        (case getScheme rawURL of
           Inl err \<Rightarrow> Inl err
         | Inr (scheme0, rest0) \<Rightarrow>
            (let scheme = strings_ToLower scheme0;
                 force = (rest0 \<noteq> [] \<and> last rest0 = CHR ''?''
                          \<and> count_list rest0 (CHR ''?'') = 1);
                 rest = (if force then butlast rest0
                         else takeWhile (\<lambda>c. c \<noteq> CHR ''?'') rest0);
                 query = (if force then []
                          else drop 1 (dropWhile (\<lambda>c. c \<noteq> CHR ''?'') rest0))
             in
             if \<not> strings_HasPrefix rest ''/'' then
               (if scheme \<noteq> [] then
                  Inr \<lparr>Scheme = scheme, Opaque = rest, User = None, Host = [], Path = [],
                       ForceQuery = force, RawQuery = query\<rparr>
                else Inl ''invalid URI for request'')
             else if scheme \<noteq> [] \<and> strings_HasPrefix rest ''//'' then
               (let authority = takeWhile (\<lambda>c. c \<noteq> CHR ''/'') (drop 2 rest);
                    rest' = dropWhile (\<lambda>c. c \<noteq> CHR ''/'') (drop 2 rest)
                in case parseAuthority authority of
                     Inl err \<Rightarrow> Inl err
                   | Inr (user, host) \<Rightarrow>
                       (case setPath rest' of
                          Inl err \<Rightarrow> Inl err
                        | Inr path \<Rightarrow>
                            Inr \<lparr>Scheme = scheme, Opaque = [], User = user, Host = host,
                                 Path = path, ForceQuery = force, RawQuery = query\<rparr>))
             else
               (case setPath rest of
                  Inl err \<Rightarrow> Inl err
                | Inr path \<Rightarrow>
                    Inr \<lparr>Scheme = scheme, Opaque = [], User = None, Host = [],
                         Path = path, ForceQuery = force, RawQuery = query\<rparr>))))"

section \<open>A fake transport, codec and parser\<close>

text \<open>
  The environment at which the theorems are instantiated: the URL parser above, a
  transport that answers every \<open>http\<close> or \<open>https\<close> request with one canned response, a
  gzip codec that knows one compressed document, and a parser that returns what it was
  given. Each double agrees with its original on the inputs the instances below use; the
  comments say where it stops.
\<close>

text \<open>
  Authorities made of letters, digits, \<open>.\<close> and \<open>-\<close> only: a registered name, which
  \<open>parseAuthority\<close> returns as the host, with no user. Anything else is outside the
  double.
\<close>

definition fake_parseAuthority :: authority_parser where
  "fake_parseAuthority authority =
     (if list_all (\<lambda>c. is_letter c \<or> is_scheme_mark c \<and> c \<noteq> CHR ''+'') authority
      then Inr (None, authority)
      else Inl ''authority outside the double'')"

text \<open>Paths without \<open>%\<close>: \<open>setPath\<close> stores them unchanged.\<close>

definition fake_setPath :: path_setter where
  "fake_setPath p =
     (if CHR ''%'' \<in> set p then Inl ''escape outside the double'' else Inr p)"

definition fake_NewRequest :: "string \<Rightarrow> string \<Rightarrow> string + request" where
  "fake_NewRequest method rawURL =
     Inr \<lparr>Method = method, ReqURL = rawURL, ReqHeader = Map.empty\<rparr>"

definition fake_Do :: "response \<Rightarrow> client \<Rightarrow> request \<Rightarrow> string + response" where
  "fake_Do resp cl req =
     (if strings_HasPrefix (ReqURL req) ''http://'' \<or> strings_HasPrefix (ReqURL req) ''https://''
      then Inr resp
      else Inl ''unsupported protocol scheme'')"

text \<open>
  The fixed part of the gzip header, as \<open>readHeader\<close> checks it: ten bytes, the magic
  \<open>1f 8b\<close>, the method 8. The reader is the rest of the stream. Optional header fields
  (a flag byte other than 0) are outside the double.
\<close>

definition fake_gzip_NewReader :: "byte list \<Rightarrow> string + byte list" where
  "fake_gzip_NewReader b =
     (if b = [] then Inl ''EOF''
      else if length b < 10 then Inl ''unexpected EOF''
      else if b ! 0 \<noteq> 31 \<or> b ! 1 \<noteq> 139 \<or> b ! 2 \<noteq> 8 then Inl ''gzip: invalid header''
      else if b ! 3 \<noteq> 0 then Inl ''header flags outside the double''
      else Inr (drop 10 b))"

text \<open>The document \<open><html>hi</html>\<close> and what \<open>gzip\<close> makes of it (31 bytes).\<close>

definition html_hi :: "byte list" where
  "html_hi = [60, 104, 116, 109, 108, 62, 104, 105, 60, 47, 104, 116, 109, 108, 62]"

definition html_hi_gz :: "byte list" where
  "html_hi_gz =
     [31, 139, 8, 0, 0, 0, 0, 0, 2, 3,
      179, 201, 40, 201, 205, 177, 203, 200, 180, 209, 7, 51, 0,
      144, 221, 94, 181, 15, 0, 0, 0]"

text \<open>
  The codec knows that one stream; an empty stream ends early, as a truncated member
  does; every other stream it calls corrupt.
\<close>

definition fake_gzip_ReadAll :: "byte list \<Rightarrow> byte list \<times> string option" where
  "fake_gzip_ReadAll z =
     (if z = drop 10 html_hi_gz then (html_hi, None)
      else if z = [] then ([], Some ''unexpected EOF'')
      else ([], Some ''flate: corrupt input''))"

text \<open>
  The parser double reads its input to the end and returns, as the article, the bytes
  it read and the URL it was given; a read error is its error.
\<close>

definition fake_Parse :: "byte list reader \<Rightarrow> url \<Rightarrow> string + (byte list \<times> url)" where
  "fake_Parse r u =
     (case (case r of BodyReader b \<Rightarrow> (b, None) | GzipReader z \<Rightarrow> fake_gzip_ReadAll z) of
        (bs, None) \<Rightarrow> Inr (bs, u)
      | (bs, Some err) \<Rightarrow> Inl (''failed to parse input: '' @ err))"

text \<open>The same parser, as a function of what its reader yields.\<close>

definition fake_parse_stream :: "byte list \<times> string option \<Rightarrow> url \<Rightarrow> string + (byte list \<times> url)" where
  "fake_parse_stream input u =
     (case input of
        (bs, None) \<Rightarrow> Inr (bs, u)
      | (bs, Some err) \<Rightarrow> Inl (''failed to parse input: '' @ err))"

definition fake_env :: "response \<Rightarrow> (byte list, byte list \<times> url) env" where
  "fake_env resp =
     \<lparr>ParseRequestURI = url_ParseRequestURI fake_parseAuthority fake_setPath,
      NewRequest = fake_NewRequest,
      Do = fake_Do resp,
      gzip_NewReader = fake_gzip_NewReader,
      gzip_ReadAll = fake_gzip_ReadAll,
      Parse = fake_Parse\<rparr>"

text \<open>Canned responses: status, content encoding, content type, body.\<close>

definition mk_response :: "int \<Rightarrow> string option \<Rightarrow> string option \<Rightarrow> byte list \<Rightarrow> response" where
  "mk_response status enc ctype body =
     \<lparr>StatusCode = status,
      Header = (\<lambda>k. if k = ''Content-Encoding'' then map_option (\<lambda>v. [v]) enc
                    else if k = ''Content-Type'' then map_option (\<lambda>v. [v]) ctype
                    else None),
      Body = body,
      Request = \<lparr>Method = ''GET'', ReqURL = ''http://example.com/moved'',
                 ReqHeader = [''Accept-Encoding'' \<mapsto> [''gzip'']]\<rparr>\<rparr>"

text \<open>Ten bytes of text, \<open>plain text\<close>: not a gzip header.\<close>

definition plain_text :: "byte list" where
  "plain_text = [112, 108, 97, 105, 110, 32, 116, 101, 120, 116]"

text \<open>What \<open>ParseRequestURI\<close> makes of \<open>http://example.com/old\<close>.\<close>

definition old_url :: url where
  "old_url = \<lparr>Scheme = ''http'', Opaque = [], User = None, Host = ''example.com'',
              Path = ''/old'', ForceQuery = False, RawQuery = []\<rparr>"

section \<open>Notions used in the properties\<close>

text \<open>
  Lines 64--71: a gzip reader exists, and its \<open>Close\<close> is deferred, exactly when the
  \<open>Content-Encoding\<close> header is \<open>gzip\<close> and \<open>gzip.NewReader\<close> returned no error.
\<close>

definition gzip_created :: "('z, 'a) env \<Rightarrow> response \<Rightarrow> bool" where
  "gzip_created env resp =
     (Header_Get (Header resp) ''Content-Encoding'' = ''gzip''
      \<and> (case gzip_NewReader env (Body resp) of Inl err \<Rightarrow> False | Inr z \<Rightarrow> True))"

text \<open>
  The same environment with a transport that answers with other status codes: each
  response it returns has the status \<open>status resp\<close> in place of its own.
\<close>

definition with_status :: "(response \<Rightarrow> int) \<Rightarrow> ('z, 'a) env \<Rightarrow> ('z, 'a) env" where
  "with_status status env =
     env\<lparr>Do := \<lambda>cl req. map_sum id (\<lambda>resp. resp\<lparr>StatusCode := status resp\<rparr>) (Do env cl req)\<rparr>"


text \<open>
  The same environment with a transport whose responses record another request as the
  one that obtained them, as they do after a redirect: \<open>final resp\<close> in place of
  \<open>resp.Request\<close>.
\<close>

definition with_final_request :: "(response \<Rightarrow> request) \<Rightarrow> ('z, 'a) env \<Rightarrow> ('z, 'a) env" where
  "with_final_request final env =
     env\<lparr>Do := \<lambda>cl req. map_sum id (\<lambda>resp. resp\<lparr>Request := final resp\<rparr>) (Do env cl req)\<rparr>"

text \<open>
  Line 85: what \<open>FromURL\<close> returns for what \<open>Parse\<close> returned, the article or the
  parser's error, unchanged.
\<close>

definition Parse_result :: "string + 'a \<Rightarrow> error + 'a" where
  "Parse_result ret =
     (case ret of Inl err \<Rightarrow> Inl (ParseError err) | Inr article \<Rightarrow> Inr article)"

section \<open>Properties\<close>

lemmas fake_simps =
  fake_env_def mk_response_def fake_NewRequest_def fake_Do_def fake_gzip_NewReader_def
  fake_gzip_ReadAll_def fake_Parse_def fake_parseAuthority_def fake_setPath_def
  url_ParseRequestURI_def stringContainsCTLByte_def getScheme_def is_letter_def
  is_scheme_mark_def strings_ToLower_def html_hi_def html_hi_gz_def
  Header_Get_def Header_Set_def

subsection \<open>Auxiliary facts\<close>

lemma FromURL_fetch_InrD:
  assumes "FromURL_fetch env pageURL timeout = Inr (u, resp, evs)"
  shows "ParseRequestURI env pageURL = Inr u"
    and "FromURL env pageURL timeout = FromURL_response env u resp evs"
    and "\<exists>req. evs = [NewRequestCall ''GET'' pageURL, DoCall \<lparr>Timeout = timeout\<rparr> req]
           \<and> Do env \<lparr>Timeout = timeout\<rparr> req = Inr resp"
  using assms
  by (auto simp: FromURL_def FromURL_fetch_def Let_def split: sum.splits)

lemma fake_fetch:
  "\<exists>evs. FromURL_fetch (fake_env resp) ''http://example.com/old'' 30 = Inr (old_url, resp, evs)"
  by (simp add: FromURL_fetch_def fake_simps old_url_def Let_def)

lemma parse_readers_append [simp]:
  "parse_readers (xs @ ys) = parse_readers xs @ parse_readers ys"
  by (induction xs rule: parse_readers.induct) auto

lemma FromURL_response_not_InvalidURL:
  "fst (FromURL_response env u resp evs) \<noteq> Inl (InvalidURL err)"
  by (simp add: FromURL_response_def Let_def split: sum.splits prod.splits if_splits)

lemma FromURL_response_not_FetchError:
  "fst (FromURL_response env u resp evs) \<noteq> Inl (FetchError err)"
  by (simp add: FromURL_response_def Let_def split: sum.splits prod.splits if_splits)

lemma FromURL_response_DoCall:
  "DoCall cl req \<in> set (snd (FromURL_response env u resp evs)) \<longleftrightarrow> DoCall cl req \<in> set evs"
  by (cases "gzip_NewReader env (Body resp)")
     (auto simp: FromURL_response_def Let_def split: sum.splits)

lemma FromURL_response_ParseCall:
  "ParseCall r v \<in> set (snd (FromURL_response env u resp evs)) \<Longrightarrow>
     ParseCall r v \<in> set evs \<or> v = u"
  by (cases "gzip_NewReader env (Body resp)")
     (auto simp: FromURL_response_def Let_def split: sum.splits if_splits)

lemma FromURL_response_StatusCode:
  "FromURL_response (with_status status env) u (resp\<lparr>StatusCode := s\<rparr>) evs
     = FromURL_response env u resp evs"
  by (cases "gzip_NewReader env (Body resp)")
     (simp_all add: FromURL_response_def with_status_def Let_def)

text \<open>
  The response is read at two header keys only. A \<open>Transfer-Encoding\<close> entry, in
  particular, changes nothing.
\<close>

lemma Transfer_Encoding_header_ignored:
  "FromURL_response env u (resp\<lparr>Header := (Header resp)(''Transfer-Encoding'' := v)\<rparr>) evs
     = FromURL_response env u resp evs"
  by (cases "gzip_NewReader env (Body resp)")
     (simp_all add: FromURL_response_def Header_Get_def Let_def)

lemma FromURL_response_Request:
  "FromURL_response (with_final_request final env) u (resp\<lparr>Request := q\<rparr>) evs
     = FromURL_response env u resp evs"
  by (cases "gzip_NewReader env (Body resp)")
     (simp_all add: FromURL_response_def with_final_request_def Let_def)

lemma fake_Parse_reads:
  "\<forall>r v. Parse (fake_env resp) r v = fake_parse_stream (read_all (fake_env resp) r) v"
proof (intro allI)
  fix r :: "byte list reader" and v
  show "Parse (fake_env resp) r v = fake_parse_stream (read_all (fake_env resp) r) v"
    by (cases r) (simp_all add: fake_env_def fake_Parse_def fake_parse_stream_def)
qed

lemma closed_once:
  assumes "evs = before @ cl" "GzipClose \<notin> set before" "BodyClose \<notin> set before"
  shows "count_list evs BodyClose = count_list cl BodyClose"
    and "count_list evs GzipClose = count_list cl GzipClose"
  using assms by (simp_all add: count_list_0_iff)

lemma getScheme_from_shape:
  "getScheme_from rawURL seen cs = Inr (sch, rest) \<Longrightarrow> (sch = [] \<and> rest = rawURL) \<or> sch \<noteq> []"
  by (induction cs arbitrary: seen) (auto split: if_splits)

lemma strings_ToLower_Nil [simp]: "strings_ToLower s = [] \<longleftrightarrow> s = []"
  by (simp add: strings_ToLower_def)

lemma HasPrefix_takeWhile_slash:
  "strings_HasPrefix (takeWhile P s) ''/'' \<Longrightarrow> strings_HasPrefix s ''/''"
  by (cases s) (auto split: if_splits)

lemma HasPrefix_butlast_slash:
  "strings_HasPrefix (butlast s) ''/'' \<Longrightarrow> strings_HasPrefix s ''/''"
  by (cases s) (auto split: if_splits)

lemma url_ParseRequestURI_rejects:
  assumes "getScheme rawURL = Inr ([], rest0)" "rawURL \<noteq> ''*''" "\<not> strings_HasPrefix rawURL ''/''"
  shows "\<exists>err. url_ParseRequestURI pA sP rawURL = Inl err"
proof -
  from assms(1) have r0: "rest0 = rawURL"
    using getScheme_from_shape [of rawURL "[]" rawURL "[]" rest0] by (simp add: getScheme_def)
  show ?thesis
    using assms r0
    by (auto simp: url_ParseRequestURI_def Let_def strings_ToLower_def
          dest: HasPrefix_takeWhile_slash HasPrefix_butlast_slash)
qed

lemma url_ParseRequestURI_accepts:
  assumes "url_ParseRequestURI pA sP rawURL = Inr u"
  shows "rawURL = ''*'' \<or> (strings_HasPrefix rawURL ''/'' \<and> Scheme u = [] \<and> Host u = [])
           \<or> Scheme u \<noteq> []"
proof (cases "rawURL = ''*''")
  case True then show ?thesis by simp
next
  case False
  from assms False obtain sch rest0 where gs: "getScheme rawURL = Inr (sch, rest0)"
    by (auto simp: url_ParseRequestURI_def split: if_splits sum.splits)
  show ?thesis
  proof (cases "sch = []")
    case True
    with gs have r0: "rest0 = rawURL"
      using getScheme_from_shape [of rawURL "[]" rawURL sch rest0] by (simp add: getScheme_def)
    from assms False gs True r0 show ?thesis
      by (auto simp: url_ParseRequestURI_def Let_def
            dest: HasPrefix_takeWhile_slash HasPrefix_butlast_slash
            split: if_splits sum.splits)
  next
    case False
    with assms \<open>rawURL \<noteq> ''*''\<close> gs show ?thesis
      by (auto simp: url_ParseRequestURI_def Let_def split: if_splits sum.splits)
  qed
qed

lemma FromURL_InvalidURL_iff:
  "(\<exists>err. fst (FromURL env pageURL timeout) = Inl (InvalidURL err))
     \<longleftrightarrow> (\<exists>err. ParseRequestURI env pageURL = Inl err)"
proof
  assume "\<exists>err. fst (FromURL env pageURL timeout) = Inl (InvalidURL err)"
  then obtain err where e: "fst (FromURL env pageURL timeout) = Inl (InvalidURL err)" ..
  show "\<exists>err. ParseRequestURI env pageURL = Inl err"
  proof (cases "ParseRequestURI env pageURL")
    case (Inl a) then show ?thesis by blast
  next
    case (Inr parsedURL)
    with e show ?thesis
      using FromURL_response_not_InvalidURL [of env parsedURL _ _ err]
      by (auto simp: FromURL_def FromURL_fetch_def Let_def split: sum.splits)
  qed
next
  assume "\<exists>err. ParseRequestURI env pageURL = Inl err"
  then show "\<exists>err. fst (FromURL env pageURL timeout) = Inl (InvalidURL err)"
    by (auto simp: FromURL_def FromURL_fetch_def)
qed

lemma strings_HasPrefix_iff: "strings_HasPrefix s p \<longleftrightarrow> (\<exists>post. s = p @ post)"
  by (induction s p rule: strings_HasPrefix.induct) auto

lemma strings_Contains_iff:
  "strings_Contains s substr \<longleftrightarrow> (\<exists>pre post. s = pre @ substr @ post)"
proof (induction s)
  case Nil
  then show ?case by auto
next
  case (Cons c s)
  show ?case
  proof
    assume "strings_Contains (c # s) substr"
    then consider "strings_HasPrefix (c # s) substr" | "strings_Contains s substr" by auto
    then show "\<exists>pre post. c # s = pre @ substr @ post"
    proof cases
      case 1
      then obtain post where "c # s = substr @ post" by (auto simp: strings_HasPrefix_iff)
      then have "c # s = [] @ substr @ post" by simp
      then show ?thesis by blast
    next
      case 2
      with Cons.IH obtain pre post where "s = pre @ substr @ post" by blast
      then have "c # s = (c # pre) @ substr @ post" by simp
      then show ?thesis by blast
    qed
  next
    assume "\<exists>pre post. c # s = pre @ substr @ post"
    then obtain pre post where eq: "c # s = pre @ substr @ post" by blast
    show "strings_Contains (c # s) substr"
    proof (cases pre)
      case Nil
      with eq have "strings_HasPrefix (c # s) substr"
        by (auto simp: strings_HasPrefix_iff)
      then show ?thesis by simp
    next
      case (Cons a pre')
      with eq have "s = pre' @ substr @ post" by simp
      with Cons.IH have "strings_Contains s substr" by blast
      then show ?thesis by simp
    qed
  qed
qed

subsection \<open>The URL validator runs before any network activity\<close>

text \<open>
  C1. When the URL validator rejects the input string, \<open>FromURL\<close> returns that error,
  wrapped as \<open>InvalidURL\<close>, and its log is empty: no request was built and the client was
  not called, so nothing reached the network.
\<close>

theorem FromURL_rejected_url_no_network:
  assumes "ParseRequestURI env pageURL = Inl err"
  shows "FromURL env pageURL timeout = (Inl (InvalidURL err), [])"
  using assms by (simp add: FromURL_def FromURL_fetch_def)

theorem FromURL_rejected_url_no_network_witness:
  "ParseRequestURI (fake_env (mk_response 200 None (Some ''text/html'') html_hi)) ''example.com''
     = Inl ''invalid URI for request''
   \<and> FromURL (fake_env (mk_response 200 None (Some ''text/html'') html_hi)) ''example.com'' 30
     = (Inl (InvalidURL ''invalid URI for request''), [])"
proof -
  have rejected:
    "ParseRequestURI (fake_env (mk_response 200 None (Some ''text/html'') html_hi)) ''example.com''
       = Inl ''invalid URI for request''"
    by (simp add: fake_simps)
  from FromURL_rejected_url_no_network [OF rejected] rejected show ?thesis by simp
qed

subsection \<open>What the URL validator accepts\<close>

text \<open>
  C2, as stated, fails: the absolute path \<open>/index.html\<close> has neither a scheme nor an
  authority, the validator accepts it, and \<open>FromURL\<close> goes on to the transport, which is
  where it fails.
\<close>

theorem validator_accepts_absolute_path_counterexample:
  "ParseRequestURI (fake_env (mk_response 200 None (Some ''text/html'') html_hi)) ''/index.html''
     = Inr \<lparr>Scheme = [], Opaque = [], User = None, Host = [], Path = ''/index.html'',
            ForceQuery = False, RawQuery = []\<rparr>
   \<and> fst (FromURL (fake_env (mk_response 200 None (Some ''text/html'') html_hi)) ''/index.html'' 30)
     = Inl (FetchError ''unsupported protocol scheme'')"
  by (simp add: FromURL_def FromURL_fetch_def FromURL_response_def fake_simps Let_def)

text \<open>
  C2, amended. \<open>FromURL\<close> fails with \<open>InvalidURL\<close> exactly when \<open>ParseRequestURI\<close>
  rejects the input string. A scheme and an authority are not what it asks for: every
  string it accepts is \<open>*\<close>, or starts with \<open>/\<close> and gives a URL with no scheme and no
  host, or gives a URL with a scheme; and it rejects every string other than \<open>*\<close> in
  which \<open>getScheme\<close> finds no scheme and which does not start with \<open>/\<close>.
\<close>

theorem validator_is_ParseRequestURI:
  "((\<exists>err. fst (FromURL env pageURL timeout) = Inl (InvalidURL err))
      \<longleftrightarrow> (\<exists>err. ParseRequestURI env pageURL = Inl err))
   \<and> (\<forall>u. url_ParseRequestURI parseAuthority setPath rawURL = Inr u \<longrightarrow>
          rawURL = ''*''
          \<or> (strings_HasPrefix rawURL ''/'' \<and> Scheme u = [] \<and> Host u = [])
          \<or> Scheme u \<noteq> [])
   \<and> (\<forall>rest. getScheme rawURL = Inr ([], rest) \<and> rawURL \<noteq> ''*''
               \<and> \<not> strings_HasPrefix rawURL ''/'' \<longrightarrow>
          (\<exists>err. url_ParseRequestURI parseAuthority setPath rawURL = Inl err))"
  using FromURL_InvalidURL_iff [of env pageURL timeout]
    url_ParseRequestURI_accepts [of parseAuthority setPath rawURL]
    url_ParseRequestURI_rejects [of rawURL _ parseAuthority setPath]
  by blast

theorem validator_is_ParseRequestURI_witness:
  "(\<exists>err. fst (FromURL (fake_env (mk_response 200 None (Some ''text/html'') html_hi))
                 ''example.com'' 30) = Inl (InvalidURL err))
   \<and> url_ParseRequestURI fake_parseAuthority fake_setPath ''mailto:a''
       = Inr \<lparr>Scheme = ''mailto'', Opaque = ''a'', User = None, Host = [], Path = [],
              ForceQuery = False, RawQuery = []\<rparr>
   \<and> Scheme \<lparr>Scheme = ''mailto'', Opaque = ''a'', User = None, Host = [], Path = [],
              ForceQuery = False, RawQuery = []\<rparr> = ''mailto''
   \<and> getScheme ''example.com'' = Inr ([], ''example.com'')
   \<and> (\<exists>err. url_ParseRequestURI fake_parseAuthority fake_setPath ''example.com'' = Inl err)"
proof -
  let ?env = "fake_env (mk_response 200 None (Some ''text/html'') html_hi)"
  let ?u = "\<lparr>Scheme = ''mailto'', Opaque = ''a'', User = None, Host = [], Path = [],
             ForceQuery = False, RawQuery = []\<rparr>"
  have rejected: "\<exists>err. ParseRequestURI ?env ''example.com'' = Inl err"
    by (simp add: fake_simps)
  have accepted: "url_ParseRequestURI fake_parseAuthority fake_setPath ''mailto:a'' = Inr ?u"
    by (simp add: fake_simps Let_def)
  have no_scheme: "getScheme ''example.com'' = Inr ([], ''example.com'')"
    by (simp add: getScheme_def is_letter_def is_scheme_mark_def)
  from validator_is_ParseRequestURI
         [of ?env "''example.com''" 30 fake_parseAuthority fake_setPath "''mailto:a''"]
  have invalid: "\<exists>err. fst (FromURL ?env ''example.com'' 30) = Inl (InvalidURL err)"
    and scheme: "Scheme ?u = ''mailto''"
    using rejected accepted by simp_all
  from validator_is_ParseRequestURI
         [of ?env "''example.com''" 30 fake_parseAuthority fake_setPath "''example.com''"]
    no_scheme
  have refused: "\<exists>err. url_ParseRequestURI fake_parseAuthority fake_setPath ''example.com'' = Inl err"
    by simp
  from invalid accepted scheme no_scheme refused show ?thesis by blast
qed

subsection \<open>Responses that are not HTML\<close>

text \<open>
  C3, as stated, fails: a \<open>text/plain\<close> response that declares gzip and whose body is
  not gzip data is refused by the gzip reader, which runs before the content type is
  looked at.
\<close>

theorem non_html_bad_gzip_counterexample:
  "\<not> strings_Contains
        (Header_Get (Header (mk_response 200 (Some ''gzip'') (Some ''text/plain'') plain_text))
           ''Content-Type'') ''text/html''
   \<and> fst (FromURL (fake_env (mk_response 200 (Some ''gzip'') (Some ''text/plain'') plain_text))
             ''http://example.com/old'' 30)
       = Inl (DecodeError ''gzip: invalid header'')"
  by (simp add: FromURL_def FromURL_fetch_def FromURL_response_def fake_simps plain_text_def
        Let_def)

text \<open>
  C3, amended. For every response whose content type does not contain \<open>text/html\<close>,
  \<open>FromURL\<close> fails with \<open>UnsupportedContentType\<close> whatever the body holds, and the parser
  is not called, unless the response declares gzip and \<open>gzip.NewReader\<close> fails on the
  body: then it fails with that \<open>DecodeError\<close>.
\<close>

theorem non_html_rejected_after_normalizer:
  assumes "FromURL_fetch env pageURL timeout = Inr (u, resp, evs)"
      and "\<not> strings_Contains (Header_Get (Header resp) ''Content-Type'') ''text/html''"
  shows "fst (FromURL env pageURL timeout) =
           (if Header_Get (Header resp) ''Content-Encoding'' = ''gzip''
            then (case gzip_NewReader env (Body resp) of
                    Inl err \<Rightarrow> Inl (DecodeError err)
                  | Inr z \<Rightarrow> Inl UnsupportedContentType)
            else Inl UnsupportedContentType)
         \<and> parse_readers (snd (FromURL env pageURL timeout)) = []"
proof -
  from FromURL_fetch_InrD [OF assms(1)] obtain req where
    run: "FromURL env pageURL timeout = FromURL_response env u resp evs" and
    evs: "evs = [NewRequestCall ''GET'' pageURL, DoCall \<lparr>Timeout = timeout\<rparr> req]"
    by blast
  show ?thesis
    using assms(2) by (simp add: run evs FromURL_response_def Let_def split: sum.splits)
qed

theorem non_html_rejected_after_normalizer_witness:
  "\<not> strings_Contains
        (Header_Get (Header (mk_response 200 None (Some ''text/plain'') plain_text))
           ''Content-Type'') ''text/html''
   \<and> fst (FromURL (fake_env (mk_response 200 None (Some ''text/plain'') plain_text))
             ''http://example.com/old'' 30) = Inl UnsupportedContentType
   \<and> parse_readers (snd (FromURL (fake_env (mk_response 200 None (Some ''text/plain'') plain_text))
             ''http://example.com/old'' 30)) = []"
proof -
  let ?r = "mk_response 200 None (Some ''text/plain'') plain_text"
  obtain evs where
    fetched: "FromURL_fetch (fake_env ?r) ''http://example.com/old'' 30 = Inr (old_url, ?r, evs)"
    using fake_fetch by blast
  have not_html: "\<not> strings_Contains (Header_Get (Header ?r) ''Content-Type'') ''text/html''"
    by (simp add: mk_response_def Header_Get_def)
  have enc: "Header_Get (Header ?r) ''Content-Encoding'' \<noteq> ''gzip''"
    by (simp add: mk_response_def Header_Get_def)
  from non_html_rejected_after_normalizer [OF fetched not_html] not_html enc
  show ?thesis by simp
qed

subsection \<open>The bytes the parser is given\<close>

text \<open>
  C4. Let the parser's result depend on its reader only through what the reader
  yields. For an HTML response that declares gzip and whose body is a gzip compression
  of \<open>B\<close>, \<open>FromURL\<close> returns what the parser makes of exactly \<open>B\<close>; for an HTML
  response that does not declare gzip it returns what the parser makes of the body as it
  is. The one reader handed to \<open>Parse\<close> yields those bytes; when the content type is not
  HTML nothing is handed on.
\<close>

theorem delivered_bytes:
  assumes "FromURL_fetch env pageURL timeout = Inr (u, resp, evs)"
      and "\<forall>r v. Parse env r v = parse_stream (read_all env r) v"
  shows "(Header_Get (Header resp) ''Content-Encoding'' = ''gzip'' \<and> gzip_of env (Body resp) B
            \<longrightarrow> delivered env (snd (FromURL env pageURL timeout)) =
                  (if strings_Contains (Header_Get (Header resp) ''Content-Type'') ''text/html''
                   then [(B, None)] else [])
              \<and> fst (FromURL env pageURL timeout) =
                  (if strings_Contains (Header_Get (Header resp) ''Content-Type'') ''text/html''
                   then Parse_result (parse_stream (B, None) u)
                   else Inl UnsupportedContentType))
       \<and> (Header_Get (Header resp) ''Content-Encoding'' \<noteq> ''gzip''
            \<longrightarrow> delivered env (snd (FromURL env pageURL timeout)) =
                  (if strings_Contains (Header_Get (Header resp) ''Content-Type'') ''text/html''
                   then [(Body resp, None)] else [])
              \<and> fst (FromURL env pageURL timeout) =
                  (if strings_Contains (Header_Get (Header resp) ''Content-Type'') ''text/html''
                   then Parse_result (parse_stream (Body resp, None) u)
                   else Inl UnsupportedContentType))"
proof -
  from FromURL_fetch_InrD [OF assms(1)] obtain req where
    run: "FromURL env pageURL timeout = FromURL_response env u resp evs" and
    evs: "evs = [NewRequestCall ''GET'' pageURL, DoCall \<lparr>Timeout = timeout\<rparr> req]"
    by blast
  have gz: "Parse env (GzipReader z) u = parse_stream (gzip_ReadAll env z) u" for z
    using assms(2) by simp
  have id: "Parse env (BodyReader b) u = parse_stream (b, None) u" for b
    using assms(2) by simp
  show ?thesis
    by (cases "gzip_NewReader env (Body resp)")
       (simp_all add: run evs FromURL_response_def delivered_def gzip_of_def Parse_result_def
          gz id Let_def split: sum.splits)
qed

theorem delivered_bytes_witness:
  "gzip_of (fake_env (mk_response 200 (Some ''gzip'') (Some ''text/html; charset=utf-8'') html_hi_gz))
      html_hi_gz html_hi
   \<and> fst (FromURL (fake_env (mk_response 200 (Some ''gzip'') (Some ''text/html; charset=utf-8'') html_hi_gz))
               ''http://example.com/old'' 30)
       = Inr (html_hi, old_url)
   \<and> fst (FromURL (fake_env (mk_response 200 None (Some ''text/html'') html_hi))
               ''http://example.com/old'' 30)
       = Inr (html_hi, old_url)"
proof -
  let ?g = "mk_response 200 (Some ''gzip'') (Some ''text/html; charset=utf-8'') html_hi_gz"
  let ?i = "mk_response 200 None (Some ''text/html'') html_hi"
  obtain evs where
    fetched: "FromURL_fetch (fake_env ?g) ''http://example.com/old'' 30 = Inr (old_url, ?g, evs)"
    using fake_fetch by blast
  obtain evs' where
    fetched': "FromURL_fetch (fake_env ?i) ''http://example.com/old'' 30 = Inr (old_url, ?i, evs')"
    using fake_fetch by blast
  have body: "Body ?g = html_hi_gz" "Body ?i = html_hi"
    by (simp_all add: mk_response_def)
  have enc: "Header_Get (Header ?g) ''Content-Encoding'' = ''gzip''"
      "Header_Get (Header ?i) ''Content-Encoding'' \<noteq> ''gzip''"
    by (simp_all add: mk_response_def Header_Get_def)
  have html: "strings_Contains (Header_Get (Header ?g) ''Content-Type'') ''text/html''"
      "strings_Contains (Header_Get (Header ?i) ''Content-Type'') ''text/html''"
    by (simp_all add: mk_response_def Header_Get_def)
  have valid: "gzip_of (fake_env ?g) html_hi_gz html_hi"
    by (simp add: gzip_of_def fake_simps)
  have parsed: "Parse_result (fake_parse_stream (html_hi, None) old_url) = Inr (html_hi, old_url)"
    by (simp add: Parse_result_def fake_parse_stream_def)
  from delivered_bytes [OF fetched fake_Parse_reads, of html_hi]
    delivered_bytes [OF fetched' fake_Parse_reads, of html_hi]
    body enc html valid parsed
  show ?thesis by simp
qed

subsection \<open>The encoding normalizer\<close>

text \<open>
  C5. The response's declared encoding (the value of its \<open>Content-Encoding\<close> header,
  which is what the source reads) decides. When it is exactly \<open>gzip\<close>,
  \<open>gzip.NewReader\<close> is called on the body: its error is returned as \<open>DecodeError\<close>, and
  otherwise the gzip reader is what goes on to the gate and, for HTML, to \<open>Parse\<close>, whose
  result is returned. For every other value, the absent header included, no gzip reader
  is made or closed, no \<open>DecodeError\<close> is returned, and the body itself goes on to the
  gate and, for HTML, to \<open>Parse\<close>, whose result is returned.
\<close>

theorem normalizer_dispatch:
  assumes "FromURL_fetch env pageURL timeout = Inr (u, resp, evs)"
  shows "(Header_Get (Header resp) ''Content-Encoding'' = ''gzip'' \<longrightarrow>
            GzipNewReaderCall (Body resp) \<in> set (snd (FromURL env pageURL timeout))
            \<and> (case gzip_NewReader env (Body resp) of
                 Inl err \<Rightarrow>
                   fst (FromURL env pageURL timeout) = Inl (DecodeError err)
                   \<and> parse_readers (snd (FromURL env pageURL timeout)) = []
               | Inr z \<Rightarrow>
                   fst (FromURL env pageURL timeout) =
                     (if strings_Contains (Header_Get (Header resp) ''Content-Type'') ''text/html''
                      then Parse_result (Parse env (GzipReader z) u)
                      else Inl UnsupportedContentType)
                   \<and> parse_readers (snd (FromURL env pageURL timeout)) =
                     (if strings_Contains (Header_Get (Header resp) ''Content-Type'') ''text/html''
                      then [GzipReader z] else [])))
       \<and> (Header_Get (Header resp) ''Content-Encoding'' \<noteq> ''gzip'' \<longrightarrow>
            (\<forall>b. GzipNewReaderCall b \<notin> set (snd (FromURL env pageURL timeout)))
            \<and> GzipClose \<notin> set (snd (FromURL env pageURL timeout))
            \<and> fst (FromURL env pageURL timeout) =
                 (if strings_Contains (Header_Get (Header resp) ''Content-Type'') ''text/html''
                  then Parse_result (Parse env (BodyReader (Body resp)) u)
                  else Inl UnsupportedContentType)
            \<and> parse_readers (snd (FromURL env pageURL timeout)) =
                 (if strings_Contains (Header_Get (Header resp) ''Content-Type'') ''text/html''
                  then [BodyReader (Body resp)] else [])
            \<and> (\<forall>err. fst (FromURL env pageURL timeout) \<noteq> Inl (DecodeError err)))"
proof -
  from FromURL_fetch_InrD [OF assms(1)] obtain req where
    run: "FromURL env pageURL timeout = FromURL_response env u resp evs" and
    evs: "evs = [NewRequestCall ''GET'' pageURL, DoCall \<lparr>Timeout = timeout\<rparr> req]"
    by blast
  show ?thesis
    by (cases "gzip_NewReader env (Body resp)")
       (simp_all add: run evs FromURL_response_def Parse_result_def Let_def split: sum.splits)
qed

theorem normalizer_dispatch_witness:
  "fst (FromURL (fake_env (mk_response 200 (Some ''gzip'') (Some ''text/html'') html_hi_gz))
          ''http://example.com/old'' 30) = Inr (html_hi, old_url)
   \<and> fst (FromURL (fake_env (mk_response 200 (Some ''x-gzip'') (Some ''text/html'') html_hi_gz))
          ''http://example.com/old'' 30) = Inr (html_hi_gz, old_url)
   \<and> GzipClose
     \<notin> set (snd (FromURL (fake_env (mk_response 200 (Some ''x-gzip'') (Some ''text/html'') html_hi_gz))
                   ''http://example.com/old'' 30))"
proof -
  let ?g = "mk_response 200 (Some ''gzip'') (Some ''text/html'') html_hi_gz"
  let ?x = "mk_response 200 (Some ''x-gzip'') (Some ''text/html'') html_hi_gz"
  obtain evs where
    fetched: "FromURL_fetch (fake_env ?g) ''http://example.com/old'' 30 = Inr (old_url, ?g, evs)"
    using fake_fetch by blast
  obtain evs' where
    fetched': "FromURL_fetch (fake_env ?x) ''http://example.com/old'' 30 = Inr (old_url, ?x, evs')"
    using fake_fetch by blast
  have body: "Body ?g = html_hi_gz" "Body ?x = html_hi_gz"
    by (simp_all add: mk_response_def)
  have enc: "Header_Get (Header ?g) ''Content-Encoding'' = ''gzip''"
      "Header_Get (Header ?x) ''Content-Encoding'' \<noteq> ''gzip''"
    by (simp_all add: mk_response_def Header_Get_def)
  have html: "strings_Contains (Header_Get (Header ?g) ''Content-Type'') ''text/html''"
      "strings_Contains (Header_Get (Header ?x) ''Content-Type'') ''text/html''"
    by (simp_all add: mk_response_def Header_Get_def)
  have wrapped: "gzip_NewReader (fake_env ?g) html_hi_gz = Inr (drop 10 html_hi_gz)"
    by (simp add: fake_env_def fake_gzip_NewReader_def html_hi_gz_def)
  have unzipped: "Parse_result (Parse (fake_env ?g) (GzipReader (drop 10 html_hi_gz)) old_url)
                    = Inr (html_hi, old_url)"
    by (simp add: Parse_result_def fake_env_def fake_Parse_def fake_gzip_ReadAll_def)
  have raw: "Parse_result (Parse (fake_env ?x) (BodyReader html_hi_gz) old_url)
               = Inr (html_hi_gz, old_url)"
    by (simp add: Parse_result_def fake_env_def fake_Parse_def)
  from normalizer_dispatch [OF fetched] normalizer_dispatch [OF fetched']
    body enc html wrapped unzipped raw
  show ?thesis by simp
qed

subsection \<open>Gzip payloads that are not valid\<close>

text \<open>
  C6, as stated, fails: a body that is a gzip header and nothing more is not valid gzip
  data (reading it ends in an error), yet \<open>gzip.NewReader\<close> accepts it, and \<open>FromURL\<close>
  returns what the later stages decide, here \<open>UnsupportedContentType\<close>.
\<close>

theorem truncated_gzip_counterexample:
  "gzip_NewReader
      (fake_env (mk_response 200 (Some ''gzip'') (Some ''text/plain'') (take 10 html_hi_gz)))
      (take 10 html_hi_gz) = Inr []
   \<and> gzip_ReadAll
      (fake_env (mk_response 200 (Some ''gzip'') (Some ''text/plain'') (take 10 html_hi_gz)))
      [] = ([], Some ''unexpected EOF'')
   \<and> fst (FromURL
            (fake_env (mk_response 200 (Some ''gzip'') (Some ''text/plain'') (take 10 html_hi_gz)))
            ''http://example.com/old'' 30)
       = Inl UnsupportedContentType"
  by (simp add: FromURL_def FromURL_fetch_def FromURL_response_def fake_simps Let_def)

text \<open>
  C6, amended. For a response that declares gzip, \<open>FromURL\<close> fails with \<open>DecodeError\<close>
  exactly when \<open>gzip.NewReader\<close> fails on the body, at wrap time; it then closes the body
  and returns. When \<open>gzip.NewReader\<close> succeeds, \<open>FromURL\<close> itself never reads the
  stream: the result is \<open>UnsupportedContentType\<close> when the content type is not HTML and
  otherwise whatever \<open>Parse\<close> returns for the gzip reader.
\<close>

theorem gzip_header_failure_is_DecodeError:
  assumes "FromURL_fetch env pageURL timeout = Inr (u, resp, evs)"
      and "Header_Get (Header resp) ''Content-Encoding'' = ''gzip''"
  shows "(case gzip_NewReader env (Body resp) of
            Inl err \<Rightarrow>
              FromURL env pageURL timeout =
                (Inl (DecodeError err), evs @ [GzipNewReaderCall (Body resp), BodyClose])
          | Inr z \<Rightarrow>
              fst (FromURL env pageURL timeout) =
                (if \<not> strings_Contains (Header_Get (Header resp) ''Content-Type'') ''text/html''
                 then Inl UnsupportedContentType
                 else (case Parse env (GzipReader z) u of
                         Inl err \<Rightarrow> Inl (ParseError err)
                       | Inr article \<Rightarrow> Inr article)))"
proof -
  from FromURL_fetch_InrD [OF assms(1)]
  have run: "FromURL env pageURL timeout = FromURL_response env u resp evs" by blast
  show ?thesis
    using assms(2) by (simp add: run FromURL_response_def Let_def split: sum.splits)
qed

theorem gzip_header_failure_is_DecodeError_witness:
  "Header_Get (Header (mk_response 200 (Some ''gzip'') (Some ''text/html'') plain_text))
      ''Content-Encoding'' = ''gzip''
   \<and> gzip_NewReader (fake_env (mk_response 200 (Some ''gzip'') (Some ''text/html'') plain_text))
       plain_text = Inl ''gzip: invalid header''
   \<and> fst (FromURL (fake_env (mk_response 200 (Some ''gzip'') (Some ''text/html'') plain_text))
            ''http://example.com/old'' 30) = Inl (DecodeError ''gzip: invalid header'')"
proof -
  let ?r = "mk_response 200 (Some ''gzip'') (Some ''text/html'') plain_text"
  obtain evs where
    fetched: "FromURL_fetch (fake_env ?r) ''http://example.com/old'' 30 = Inr (old_url, ?r, evs)"
    using fake_fetch by blast
  have body: "Body ?r = plain_text"
    by (simp add: mk_response_def)
  have enc: "Header_Get (Header ?r) ''Content-Encoding'' = ''gzip''"
    by (simp add: mk_response_def Header_Get_def)
  have bad: "gzip_NewReader (fake_env ?r) plain_text = Inl ''gzip: invalid header''"
    by (simp add: fake_env_def fake_gzip_NewReader_def plain_text_def)
  from gzip_header_failure_is_DecodeError [OF fetched enc] body enc bad
  show ?thesis by simp
qed

subsection \<open>The media-type gate\<close>

text \<open>
  C7. A response that reaches the gate (it does not declare gzip, or its gzip reader
  was created) is accepted exactly when its \<open>Content-Type\<close> header contains
  \<open>text/html\<close> as a substring: then the parser is called, and otherwise \<open>FromURL\<close>
  fails with \<open>UnsupportedContentType\<close>. An absent header does not match;
  \<open>text/html; charset=utf-8\<close> does.
\<close>

theorem media_type_gate:
  assumes "FromURL_fetch env pageURL timeout = Inr (u, resp, evs)"
      and "Header_Get (Header resp) ''Content-Encoding'' \<noteq> ''gzip''
           \<or> (\<exists>z. gzip_NewReader env (Body resp) = Inr z)"
  shows "(fst (FromURL env pageURL timeout) \<noteq> Inl UnsupportedContentType
            \<longleftrightarrow> (\<exists>pre post. Header_Get (Header resp) ''Content-Type''
                               = pre @ ''text/html'' @ post))
       \<and> (parse_readers (snd (FromURL env pageURL timeout)) \<noteq> []
            \<longleftrightarrow> (\<exists>pre post. Header_Get (Header resp) ''Content-Type''
                               = pre @ ''text/html'' @ post))
       \<and> (Header resp ''Content-Type'' = None
            \<longrightarrow> fst (FromURL env pageURL timeout) = Inl UnsupportedContentType)
       \<and> strings_Contains ''text/html; charset=utf-8'' ''text/html''"
proof -
  from FromURL_fetch_InrD [OF assms(1)] obtain req where
    run: "FromURL env pageURL timeout = FromURL_response env u resp evs" and
    evs: "evs = [NewRequestCall ''GET'' pageURL, DoCall \<lparr>Timeout = timeout\<rparr> req]"
    by blast
  have absent: "Header resp ''Content-Type'' = None
      \<Longrightarrow> \<not> strings_Contains (Header_Get (Header resp) ''Content-Type'') ''text/html''"
    by (simp add: Header_Get_def)
  have a: "fst (FromURL env pageURL timeout) \<noteq> Inl UnsupportedContentType
            \<longleftrightarrow> strings_Contains (Header_Get (Header resp) ''Content-Type'') ''text/html''"
    using assms(2)
    by (auto simp: run FromURL_response_def Let_def split: sum.splits)
  have b: "parse_readers (snd (FromURL env pageURL timeout)) \<noteq> []
            \<longleftrightarrow> strings_Contains (Header_Get (Header resp) ''Content-Type'') ''text/html''"
    using assms(2)
    by (auto simp: run evs FromURL_response_def Let_def split: sum.splits)
  have c: "strings_Contains (Header_Get (Header resp) ''Content-Type'') ''text/html''
            \<longleftrightarrow> (\<exists>pre post. Header_Get (Header resp) ''Content-Type''
                               = pre @ ''text/html'' @ post)"
    by (rule strings_Contains_iff)
  have d: "strings_Contains ''text/html; charset=utf-8'' ''text/html''" by simp
  from a b c d absent show ?thesis by blast
qed

theorem media_type_gate_witness:
  "Header_Get (Header (mk_response 200 None (Some ''text/html; charset=utf-8'') html_hi))
      ''Content-Type'' = [] @ ''text/html'' @ ''; charset=utf-8''
   \<and> fst (FromURL (fake_env (mk_response 200 None (Some ''text/html; charset=utf-8'') html_hi))
            ''http://example.com/old'' 30) \<noteq> Inl UnsupportedContentType
   \<and> Header (mk_response 200 None None html_hi) ''Content-Type'' = None
   \<and> fst (FromURL (fake_env (mk_response 200 None None html_hi))
            ''http://example.com/old'' 30) = Inl UnsupportedContentType"
proof -
  let ?h = "mk_response 200 None (Some ''text/html; charset=utf-8'') html_hi"
  let ?n = "mk_response 200 None None html_hi"
  obtain evs where
    fetched: "FromURL_fetch (fake_env ?h) ''http://example.com/old'' 30 = Inr (old_url, ?h, evs)"
    using fake_fetch by blast
  obtain evs' where
    fetched': "FromURL_fetch (fake_env ?n) ''http://example.com/old'' 30 = Inr (old_url, ?n, evs')"
    using fake_fetch by blast
  have enc: "Header_Get (Header ?h) ''Content-Encoding'' \<noteq> ''gzip''
             \<or> (\<exists>z. gzip_NewReader (fake_env ?h) (Body ?h) = Inr z)"
    by (simp add: mk_response_def Header_Get_def)
  have enc': "Header_Get (Header ?n) ''Content-Encoding'' \<noteq> ''gzip''
             \<or> (\<exists>z. gzip_NewReader (fake_env ?n) (Body ?n) = Inr z)"
    by (simp add: mk_response_def Header_Get_def)
  have ctype: "Header_Get (Header ?h) ''Content-Type'' = [] @ ''text/html'' @ ''; charset=utf-8''"
    by (simp add: mk_response_def Header_Get_def)
  have absent: "Header ?n ''Content-Type'' = None"
    by (simp add: mk_response_def)
  from media_type_gate [OF fetched enc] ctype
  have accepted: "fst (FromURL (fake_env ?h) ''http://example.com/old'' 30)
                    \<noteq> Inl UnsupportedContentType"
    by blast
  from media_type_gate [OF fetched' enc'] absent
  have refused: "fst (FromURL (fake_env ?n) ''http://example.com/old'' 30)
                   = Inl UnsupportedContentType"
    by blast
  from ctype accepted absent refused show ?thesis by blast
qed

subsection \<open>No filtering on the status code\<close>

text \<open>
  C8. The status code of the response plays no part: with a transport that returns the
  same responses under any other status codes, \<open>FromURL\<close> returns the same result and
  makes the same calls. It returns \<open>FetchError\<close> exactly when the URL was accepted, the
  request was built and \<open>client.Do\<close> itself returned an error.
\<close>

theorem no_status_code_filtering:
  "FromURL (with_status status env) pageURL timeout = FromURL env pageURL timeout
   \<and> (fst (FromURL env pageURL timeout) = Inl (FetchError err)
        \<longleftrightarrow> (\<exists>u req. ParseRequestURI env pageURL = Inr u
                     \<and> DoCall \<lparr>Timeout = timeout\<rparr> req \<in> set (snd (FromURL env pageURL timeout))
                     \<and> Do env \<lparr>Timeout = timeout\<rparr> req = Inl err))"
proof
  have fetch_env:
    "ParseRequestURI (with_status status env) = ParseRequestURI env"
    "NewRequest (with_status status env) = NewRequest env"
    "Do (with_status status env) =
       (\<lambda>cl req. map_sum id (\<lambda>resp. resp\<lparr>StatusCode := status resp\<rparr>) (Do env cl req))"
    by (simp_all add: with_status_def)
  show "FromURL (with_status status env) pageURL timeout = FromURL env pageURL timeout"
    by (cases "ParseRequestURI env pageURL"; cases "NewRequest env ''GET'' pageURL")
       (auto simp: FromURL_def FromURL_fetch_def Let_def fetch_env
             FromURL_response_StatusCode split: sum.splits)
next
  show "fst (FromURL env pageURL timeout) = Inl (FetchError err)
        \<longleftrightarrow> (\<exists>u req. ParseRequestURI env pageURL = Inr u
                     \<and> DoCall \<lparr>Timeout = timeout\<rparr> req \<in> set (snd (FromURL env pageURL timeout))
                     \<and> Do env \<lparr>Timeout = timeout\<rparr> req = Inl err)"
    using FromURL_response_not_FetchError [of env _ _ _ err]
    by (cases "ParseRequestURI env pageURL"; cases "NewRequest env ''GET'' pageURL")
       (auto simp: FromURL_def FromURL_fetch_def Let_def FromURL_response_DoCall
             split: sum.splits)
qed

theorem no_status_code_filtering_witness:
  "fst (FromURL (with_status (\<lambda>resp. 404)
                   (fake_env (mk_response 200 None (Some ''text/html'') html_hi)))
          ''http://example.com/old'' 30)
     = Inr (html_hi, old_url)
   \<and> fst (FromURL (fake_env (mk_response 200 None (Some ''text/html'') html_hi))
            ''ftp://example.com/old'' 30)
     = Inl (FetchError ''unsupported protocol scheme'')"
proof -
  let ?env = "fake_env (mk_response 200 None (Some ''text/html'') html_hi)"
  have ok: "fst (FromURL ?env ''http://example.com/old'' 30) = Inr (html_hi, old_url)"
    by (simp add: FromURL_def FromURL_fetch_def FromURL_response_def fake_simps old_url_def
          Let_def)
  have accepted: "ParseRequestURI ?env ''ftp://example.com/old''
                    = Inr \<lparr>Scheme = ''ftp'', Opaque = [], User = None, Host = ''example.com'',
                           Path = ''/old'', ForceQuery = False, RawQuery = []\<rparr>"
    by (simp add: fake_simps Let_def)
  have sent: "DoCall \<lparr>Timeout = 30\<rparr>
                 \<lparr>Method = ''GET'', ReqURL = ''ftp://example.com/old'',
                  ReqHeader = [''Accept-Encoding'' \<mapsto> [''gzip'']]\<rparr>
               \<in> set (snd (FromURL ?env ''ftp://example.com/old'' 30))"
    by (simp add: FromURL_def FromURL_fetch_def FromURL_response_def fake_simps Let_def)
  have failed: "Do ?env \<lparr>Timeout = 30\<rparr>
                  \<lparr>Method = ''GET'', ReqURL = ''ftp://example.com/old'',
                   ReqHeader = [''Accept-Encoding'' \<mapsto> [''gzip'']]\<rparr>
                = Inl ''unsupported protocol scheme''"
    by (simp add: fake_env_def fake_Do_def)
  from no_status_code_filtering
         [of "\<lambda>resp. 404" ?env "''http://example.com/old''" 30]
  have same: "FromURL (with_status (\<lambda>resp. 404) ?env) ''http://example.com/old'' 30
                = FromURL ?env ''http://example.com/old'' 30"
    by blast
  from no_status_code_filtering
         [of _ ?env "''ftp://example.com/old''" 30 "''unsupported protocol scheme''"]
    accepted sent failed
  have fetch: "fst (FromURL ?env ''ftp://example.com/old'' 30)
                 = Inl (FetchError ''unsupported protocol scheme'')"
    by blast
  from same ok fetch show ?thesis by simp
qed

subsection \<open>Closing the streams\<close>

text \<open>
  C9. On every path of \<open>FromURL\<close> on which \<open>client.Do\<close> returned a response, the log
  ends with the closing calls and has no other: the body is closed exactly once; the
  gzip reader is closed exactly once when it was created, immediately before the body,
  and never when it was not.
\<close>

theorem streams_closed_once_in_reverse_order:
  assumes "FromURL_fetch env pageURL timeout = Inr (u, resp, evs)"
  shows "count_list (snd (FromURL env pageURL timeout)) BodyClose = 1
       \<and> count_list (snd (FromURL env pageURL timeout)) GzipClose
           = (if gzip_created env resp then 1 else 0)
       \<and> (\<exists>before. snd (FromURL env pageURL timeout)
                      = before @ (if gzip_created env resp then [GzipClose, BodyClose]
                                  else [BodyClose])
              \<and> GzipClose \<notin> set before \<and> BodyClose \<notin> set before)"
proof -
  from FromURL_fetch_InrD [OF assms(1)] obtain req where
    run: "FromURL env pageURL timeout = FromURL_response env u resp evs" and
    evs: "evs = [NewRequestCall ''GET'' pageURL, DoCall \<lparr>Timeout = timeout\<rparr> req]"
    by blast
  have "\<exists>before. snd (FromURL env pageURL timeout)
                    = before @ (if gzip_created env resp then [GzipClose, BodyClose]
                                else [BodyClose])
           \<and> GzipClose \<notin> set before \<and> BodyClose \<notin> set before"
    by (cases "gzip_NewReader env (Body resp)")
       (auto simp: run evs FromURL_response_def gzip_created_def Let_def split: sum.splits)
  then obtain before where
    shape: "snd (FromURL env pageURL timeout)
              = before @ (if gzip_created env resp then [GzipClose, BodyClose] else [BodyClose])"
    and clean: "GzipClose \<notin> set before" "BodyClose \<notin> set before"
    by blast
  from closed_once [OF shape clean]
  have "count_list (snd (FromURL env pageURL timeout)) BodyClose = 1"
    and "count_list (snd (FromURL env pageURL timeout)) GzipClose
           = (if gzip_created env resp then 1 else 0)"
    by simp_all
  with shape clean show ?thesis by blast
qed

theorem streams_closed_once_in_reverse_order_witness:
  "gzip_created (fake_env (mk_response 200 (Some ''gzip'') (Some ''text/html'') html_hi_gz))
      (mk_response 200 (Some ''gzip'') (Some ''text/html'') html_hi_gz)
   \<and> count_list
       (snd (FromURL (fake_env (mk_response 200 (Some ''gzip'') (Some ''text/html'') html_hi_gz))
               ''http://example.com/old'' 30)) BodyClose = 1
   \<and> count_list
       (snd (FromURL (fake_env (mk_response 200 (Some ''gzip'') (Some ''text/html'') html_hi_gz))
               ''http://example.com/old'' 30)) GzipClose = 1"
proof -
  let ?g = "mk_response 200 (Some ''gzip'') (Some ''text/html'') html_hi_gz"
  obtain evs where
    fetched: "FromURL_fetch (fake_env ?g) ''http://example.com/old'' 30 = Inr (old_url, ?g, evs)"
    using fake_fetch by blast
  have created: "gzip_created (fake_env ?g) ?g"
    by (simp add: gzip_created_def fake_simps)
  from streams_closed_once_in_reverse_order [OF fetched] created
  show ?thesis by simp
qed

subsection \<open>The URL the parser is given\<close>

text \<open>
  C10. For an HTML response, \<open>FromURL\<close> returns what \<open>Parse\<close> returns for the reader
  and the URL parsed from the caller's input string, and every call of \<open>Parse\<close> carries
  that URL. The request recorded in the response, which is the last one when redirects
  were followed, is not consulted: a transport that records any other request there
  leaves the result and the calls as they are.
\<close>

theorem parser_gets_input_url:
  assumes "FromURL_fetch env pageURL timeout = Inr (u, resp, evs)"
      and "strings_Contains (Header_Get (Header resp) ''Content-Type'') ''text/html''"
  shows "ParseRequestURI env pageURL = Inr u
       \<and> (Header_Get (Header resp) ''Content-Encoding'' \<noteq> ''gzip'' \<longrightarrow>
            fst (FromURL env pageURL timeout)
              = Parse_result (Parse env (BodyReader (Body resp)) u))
       \<and> (\<forall>z. Header_Get (Header resp) ''Content-Encoding'' = ''gzip''
                \<and> gzip_NewReader env (Body resp) = Inr z \<longrightarrow>
            fst (FromURL env pageURL timeout)
              = Parse_result (Parse env (GzipReader z) u))
       \<and> (\<forall>r v. ParseCall r v \<in> set (snd (FromURL env pageURL timeout)) \<longrightarrow> v = u)
       \<and> FromURL (with_final_request final env) pageURL timeout = FromURL env pageURL timeout"
proof -
  note fetched = FromURL_fetch_InrD [OF assms(1)]
  from fetched obtain req where
    run: "FromURL env pageURL timeout = FromURL_response env u resp evs" and
    evs: "evs = [NewRequestCall ''GET'' pageURL, DoCall \<lparr>Timeout = timeout\<rparr> req]"
    by blast
  have results:
    "(Header_Get (Header resp) ''Content-Encoding'' \<noteq> ''gzip'' \<longrightarrow>
        fst (FromURL env pageURL timeout) = Parse_result (Parse env (BodyReader (Body resp)) u))
     \<and> (\<forall>z. Header_Get (Header resp) ''Content-Encoding'' = ''gzip''
              \<and> gzip_NewReader env (Body resp) = Inr z \<longrightarrow>
          fst (FromURL env pageURL timeout) = Parse_result (Parse env (GzipReader z) u))"
    using assms(2)
    by (simp add: run FromURL_response_def Parse_result_def Let_def split: sum.splits)
  have logged: "\<forall>r v. ParseCall r v \<in> set (snd (FromURL env pageURL timeout)) \<longrightarrow> v = u"
    using FromURL_response_ParseCall [of _ _ env u resp evs]
    by (auto simp: run evs)
  have fetch_env:
    "ParseRequestURI (with_final_request final env) = ParseRequestURI env"
    "NewRequest (with_final_request final env) = NewRequest env"
    "Do (with_final_request final env) =
       (\<lambda>cl req. map_sum id (\<lambda>resp. resp\<lparr>Request := final resp\<rparr>) (Do env cl req))"
    by (simp_all add: with_final_request_def)
  have same: "FromURL (with_final_request final env) pageURL timeout = FromURL env pageURL timeout"
    by (cases "ParseRequestURI env pageURL"; cases "NewRequest env ''GET'' pageURL")
       (auto simp: FromURL_def FromURL_fetch_def Let_def fetch_env
             FromURL_response_Request split: sum.splits)
  from fetched(1) results logged same show ?thesis by blast
qed

theorem parser_gets_input_url_witness:
  "fst (FromURL (fake_env (mk_response 200 None (Some ''text/html'') html_hi))
          ''http://example.com/old'' 30) = Inr (html_hi, old_url)
   \<and> ParseRequestURI (fake_env (mk_response 200 None (Some ''text/html'') html_hi))
       ''http://example.com/old'' = Inr old_url
   \<and> ReqURL (Request (mk_response 200 None (Some ''text/html'') html_hi))
       = ''http://example.com/moved''"
proof -
  let ?r = "mk_response 200 None (Some ''text/html'') html_hi"
  obtain evs where
    fetched: "FromURL_fetch (fake_env ?r) ''http://example.com/old'' 30 = Inr (old_url, ?r, evs)"
    using fake_fetch by blast
  have body: "Body ?r = html_hi"
    by (simp add: mk_response_def)
  have enc: "Header_Get (Header ?r) ''Content-Encoding'' \<noteq> ''gzip''"
    by (simp add: mk_response_def Header_Get_def)
  have html: "strings_Contains (Header_Get (Header ?r) ''Content-Type'') ''text/html''"
    by (simp add: mk_response_def Header_Get_def)
  have final: "ReqURL (Request ?r) = ''http://example.com/moved''"
    by (simp add: mk_response_def)
  have parsed: "Parse_result (Parse (fake_env ?r) (BodyReader html_hi) old_url)
                  = Inr (html_hi, old_url)"
    by (simp add: Parse_result_def fake_env_def fake_Parse_def)
  from parser_gets_input_url [OF fetched html] body enc final parsed
  show ?thesis by simp
qed

end
